theory Spec2Isabelle
  imports Main
begin

section \<open>The bearer-token middleware of bearertoken.go\<close>

text \<open>
  The package has one exported function, \<open>New\<close>, which resolves a configuration and
  returns a request handler. The handler reads three places of the request (a query
  parameter, a form-body field, the Authorization header), keeps a token and a flag, and
  then either answers 400 or stores the token in the request's locals and calls the next
  handler.
\<close>

subsection \<open>Configuration\<close>

text \<open>The struct \<open>Config\<close> (bearertoken.go, lines 60-81): four strings.\<close>

record Config =
  BodyKey :: string
  HeaderKey :: string
  QueryKey :: string
  RequestKey :: string

text \<open>
  Lines 85-108 of \<open>New\<close>: the defaults, each replaced by the caller's field when
  \<open>opts\<close> is not nil and that field has positive length. The pointer \<open>opts\<close> is an
  option: \<open>None\<close> is nil.
\<close>

definition default_config :: Config where
  "default_config =
     \<lparr>BodyKey = ''access_token'', HeaderKey = ''Bearer'',
      QueryKey = ''access_token'', RequestKey = ''token''\<rparr>"

definition resolve :: "Config option \<Rightarrow> Config" where
  "resolve opts =
     (let config = default_config in
      case opts of
        None \<Rightarrow> config
      | Some opts \<Rightarrow>
          (let config = (if length (BodyKey opts) > 0
                         then config\<lparr>BodyKey := BodyKey opts\<rparr> else config);
               config = (if length (HeaderKey opts) > 0
                         then config\<lparr>HeaderKey := HeaderKey opts\<rparr> else config);
               config = (if length (QueryKey opts) > 0
                         then config\<lparr>QueryKey := QueryKey opts\<rparr> else config);
               config = (if length (RequestKey opts) > 0
                         then config\<lparr>RequestKey := RequestKey opts\<rparr> else config)
           in config))"

subsection \<open>The request context\<close>

text \<open>
  \<open>*fiber.Ctx\<close> belongs to the host framework, not to this package. The handler uses
  six of its methods. The three readers are fields of the record below, each a lookup
  that answers the empty string for a name that is absent: \<open>Query\<close> for
  \<open>ctx.Query(key)\<close>, \<open>Body\<close> for \<open>ctx.Body(key)\<close> and \<open>Get\<close> for \<open>ctx.Get(key)\<close>.
  The response side is the status code, the response body and the locals, a map from
  names to values.
\<close>

record Ctx =
  Query :: "string \<Rightarrow> string"
  Body :: "string \<Rightarrow> string"
  Get :: "string \<Rightarrow> string"
  locals :: "string \<rightharpoonup> string"
  status :: nat
  response :: string

text \<open>
  Modelled from the spec: the writers \<open>Status\<close>, \<open>Send\<close> and \<open>Locals\<close> of
  \<open>fiber.Ctx\<close> are not in this repository. \<open>Status\<close> sets the status code of the
  response; \<open>Send\<close> sets the response body to what it is given, so \<open>Send()\<close> with no
  argument leaves an empty body; \<open>Locals(key, value)\<close> stores the value under the key in
  the request-scoped state. \<open>ctx.Next()\<close> runs the rest of the pipeline: the handler
  below takes that rest as its argument \<open>next\<close>.
\<close>

definition Status :: "Ctx \<Rightarrow> nat \<Rightarrow> Ctx" where
  "Status ctx code = ctx\<lparr>status := code\<rparr>"

definition Send :: "Ctx \<Rightarrow> string list \<Rightarrow> Ctx" where
  "Send ctx bodies = ctx\<lparr>response := concat bodies\<rparr>"

definition Locals :: "Ctx \<Rightarrow> string \<Rightarrow> string \<Rightarrow> Ctx" where
  "Locals ctx key v = ctx\<lparr>locals := (locals ctx)(key \<mapsto> v)\<rparr>"

subsection \<open>strings.SplitN\<close>

text \<open>
  \<open>strings.SplitN(s, sep, n)\<close> of Go's standard library, for a separator of one byte
  (the handler passes a single space). \<open>IndexByte\<close> is the position of the first
  occurrence. \<open>genSplit\<close> is the library's loop after its \<open>n--\<close>: the third argument is
  the number of cuts still allowed. \<open>n = 0\<close> gives no component at all, a negative \<open>n\<close>
  cuts at every separator, and the library's cap of \<open>n\<close> at \<open>len(s) + 1\<close> changes
  nothing, since the loop stops at the first missing separator.
\<close>

fun IndexByte :: "string \<Rightarrow> char \<Rightarrow> nat option" where
  "IndexByte [] c = None"
| "IndexByte (x # xs) c = (if x = c then Some 0 else map_option Suc (IndexByte xs c))"

fun genSplit :: "string \<Rightarrow> char \<Rightarrow> nat \<Rightarrow> string list" where
  "genSplit s sep 0 = [s]"
| "genSplit s sep (Suc k) =
     (case IndexByte s sep of
        None \<Rightarrow> [s]
      | Some m \<Rightarrow> take m s # genSplit (drop (m + 1) s) sep k)"

definition SplitN :: "string \<Rightarrow> char \<Rightarrow> int \<Rightarrow> string list" where
  "SplitN s sep n =
     (if n = 0 then []
      else if n < 0 then genSplit s sep (count_list s sep)
      else genSplit s sep (nat n - 1))"

subsection \<open>The handler\<close>

text \<open>
  Lines 111-145 of the closure: the two local variables \<open>token\<close> and \<open>errored\<close>
  after the three blocks, in the order of the source. Each \<open>let\<close> is one assignment;
  an assignment under an \<open>if\<close> keeps the old value in the other branch.
\<close>

definition Extract :: "Config \<Rightarrow> Ctx \<Rightarrow> string \<times> bool" where
  "Extract config ctx =
     (let token = '''';
          errored = False;
          queryValue = Query ctx (QueryKey config);
          token = (if length queryValue > 0 then queryValue else token);
          bodyValue = Body ctx (BodyKey config);
          errored = (if length bodyValue > 0 \<and> length token > 0 then True else errored);
          token = (if length bodyValue > 0 then bodyValue else token);
          headerValue = Get ctx ''authorization'';
          components = SplitN headerValue (CHR '' '') 2;
          matched = (length headerValue > 0 \<and> length components = 2
                     \<and> components ! 0 = HeaderKey config);
          errored = (if matched \<and> length token > 0 then True else errored);
          token = (if matched then components ! 1 else token)
      in (token, errored))"

text \<open>
  Lines 147-152: on \<open>errored\<close> the status is set to 400 and the response is sent with
  no body; otherwise the token goes into the locals under \<open>RequestKey\<close> and the next
  handler runs.
\<close>

definition handler :: "Config \<Rightarrow> (Ctx \<Rightarrow> Ctx) \<Rightarrow> Ctx \<Rightarrow> Ctx" where
  "handler config next ctx =
     (let (token, errored) = Extract config ctx in
      if errored then Send (Status ctx 400) []
      else next (Locals ctx (RequestKey config) token))"

definition New :: "Config option \<Rightarrow> (Ctx \<Rightarrow> Ctx) \<Rightarrow> Ctx \<Rightarrow> Ctx" where
  "New opts = handler (resolve opts)"

subsection \<open>The three blocks, one at a time\<close>

text \<open>
  The three places a token can come from. \<open>block_value\<close> is the guard of each block
  of the closure, with the value the block assigns to \<open>token\<close> when the guard holds:
  lines 115-117 for the query, 122-124 for the body, 133-138 and 143 for the header.
\<close>

datatype source = FromQuery | FromBody | FromHeader

fun block_value :: "Config \<Rightarrow> Ctx \<Rightarrow> source \<Rightarrow> string option" where
  "block_value config ctx FromQuery =
     (let queryValue = Query ctx (QueryKey config)
      in if length queryValue > 0 then Some queryValue else None)"
| "block_value config ctx FromBody =
     (let bodyValue = Body ctx (BodyKey config)
      in if length bodyValue > 0 then Some bodyValue else None)"
| "block_value config ctx FromHeader =
     (let headerValue = Get ctx ''authorization'';
          components = SplitN headerValue (CHR '' '') 2
      in if length headerValue > 0 \<and> length components = 2
            \<and> components ! 0 = HeaderKey config
         then Some (components ! 1) else None)"

text \<open>
  One block in the shape the body and header blocks have (lines 124-130 and 138-144):
  when the guard holds, \<open>errored\<close> is set if \<open>token\<close> is already non-empty, and
  \<open>token\<close> is overwritten. The query block of the source has no test of \<open>token\<close>;
  it runs first, on the empty token, where the test would fail anyhow (lemma
  \<open>Extract_in_order\<close> below). \<open>check_in_order\<close> runs the blocks in a given order
  from the initial values of line 111 and 112.
\<close>

definition check :: "Config \<Rightarrow> Ctx \<Rightarrow> string \<times> bool \<Rightarrow> source \<Rightarrow> string \<times> bool" where
  "check config ctx st src =
     (case block_value config ctx src of
        None \<Rightarrow> st
      | Some v \<Rightarrow> (v, (if length (fst st) > 0 then True else snd st)))"

definition check_in_order :: "Config \<Rightarrow> Ctx \<Rightarrow> source list \<Rightarrow> string \<times> bool" where
  "check_in_order config ctx order = foldl (check config ctx) ('''', False) order"

subsection \<open>What the specification calls a source\<close>

text \<open>
  The words of the specification, to state the claims with. The Authorization value is
  split at its first space: the scheme is what stands before it, the credential all that
  follows it. The scheme matches when there is a space and the scheme is \<open>HeaderKey\<close>,
  byte for byte. \<open>supplied\<close> is what a source offers: nothing, or a value; the query
  and the body offer their value when it is not empty, the header offers its credential
  when the scheme matches.
\<close>

definition scheme_component :: "string \<Rightarrow> string" where
  "scheme_component h = takeWhile (\<lambda>c. c \<noteq> CHR '' '') h"

definition credential_component :: "string \<Rightarrow> string" where
  "credential_component h = drop 1 (dropWhile (\<lambda>c. c \<noteq> CHR '' '') h)"

definition scheme_matches :: "Config \<Rightarrow> string \<Rightarrow> bool" where
  "scheme_matches config h \<longleftrightarrow>
     CHR '' '' \<in> set h \<and> scheme_component h = HeaderKey config"

fun supplied :: "Config \<Rightarrow> Ctx \<Rightarrow> source \<Rightarrow> string option" where
  "supplied config ctx FromQuery =
     (if Query ctx (QueryKey config) = '''' then None
      else Some (Query ctx (QueryKey config)))"
| "supplied config ctx FromBody =
     (if Body ctx (BodyKey config) = '''' then None
      else Some (Body ctx (BodyKey config)))"
| "supplied config ctx FromHeader =
     (if scheme_matches config (Get ctx ''authorization'')
      then Some (credential_component (Get ctx ''authorization'')) else None)"

definition sources :: "source list" where
  "sources = [FromQuery, FromBody, FromHeader]"

text \<open>
  The sources that supply a non-empty value, and the sources that supply a value at all
  (for the header: a matching scheme, whatever the credential).
\<close>

definition supplies_nonempty :: "Config \<Rightarrow> Ctx \<Rightarrow> source \<Rightarrow> bool" where
  "supplies_nonempty config ctx src =
     (case supplied config ctx src of None \<Rightarrow> False | Some v \<Rightarrow> v \<noteq> '''')"

definition nonempty_sources :: "Config \<Rightarrow> Ctx \<Rightarrow> source list" where
  "nonempty_sources config ctx = filter (supplies_nonempty config ctx) sources"

definition contributing_sources :: "Config \<Rightarrow> Ctx \<Rightarrow> source list" where
  "contributing_sources config ctx =
     filter (\<lambda>src. supplied config ctx src \<noteq> None) sources"

subsection \<open>Requests and handlers of the test file\<close>

text \<open>
  bearertoken_test.go builds its requests from an empty one by adding a query parameter,
  a form field or an Authorization header, and mounts behind the middleware a handler
  that sends back the local named by the request key (lines 119-125). Header names are
  matched without regard to case by the host, so the header is stored under the name the
  handler asks for.
\<close>

definition empty_request :: Ctx where
  "empty_request =
     \<lparr>Query = (\<lambda>key. ''''), Body = (\<lambda>key. ''''), Get = (\<lambda>key. ''''),
      locals = Map.empty, status = 200, response = ''''\<rparr>"

definition with_query :: "string \<Rightarrow> string \<Rightarrow> Ctx \<Rightarrow> Ctx" where
  "with_query key v ctx = ctx\<lparr>Query := (Query ctx)(key := v)\<rparr>"

definition with_body :: "string \<Rightarrow> string \<Rightarrow> Ctx \<Rightarrow> Ctx" where
  "with_body key v ctx = ctx\<lparr>Body := (Body ctx)(key := v)\<rparr>"

definition with_authorization :: "string \<Rightarrow> Ctx \<Rightarrow> Ctx" where
  "with_authorization v ctx = ctx\<lparr>Get := (Get ctx)(''authorization'' := v)\<rparr>"

definition echo :: "string \<Rightarrow> Ctx \<Rightarrow> Ctx" where
  "echo requestKey ctx =
     Send ctx (case locals ctx requestKey of None \<Rightarrow> [] | Some v \<Rightarrow> [v])"

definition custom_config :: Config where
  "custom_config =
     \<lparr>BodyKey = ''custom_token'', HeaderKey = ''custom_token'',
      QueryKey = ''custom_token'', RequestKey = ''bearer''\<rparr>"

definition empty_config :: Config where
  "empty_config = \<lparr>BodyKey = '''', HeaderKey = '''', QueryKey = '''', RequestKey = ''''\<rparr>"

text \<open>The requests of the five test cases, with the default keys.\<close>

definition header_request :: Ctx where
  "header_request = with_authorization ''Bearer nanachi-cute'' empty_request"

definition query_request :: Ctx where
  "query_request = with_query ''access_token'' ''nanachi-cute'' empty_request"

definition body_request :: Ctx where
  "body_request = with_body ''access_token'' ''nanachi-cute'' empty_request"

definition query_and_header_request :: Ctx where
  "query_and_header_request =
     with_authorization ''Bearer nanachi-cute''
       (with_query ''access_token'' ''nanachi-cute'' empty_request)"

text \<open>
  Further requests: a header of another scheme beside a query parameter, and the bare
  scheme followed by one space beside a query parameter or a form field.
\<close>

definition query_and_basic_request :: Ctx where
  "query_and_basic_request =
     with_authorization ''Basic xyz''
       (with_query ''access_token'' ''nanachi-cute'' empty_request)"

definition query_and_bare_scheme_request :: Ctx where
  "query_and_bare_scheme_request =
     with_authorization ''Bearer ''
       (with_query ''access_token'' ''nanachi-cute'' empty_request)"

definition body_and_bare_scheme_request :: Ctx where
  "body_and_bare_scheme_request =
     with_authorization ''Bearer ''
       (with_body ''access_token'' ''nanachi-cute'' empty_request)"

text \<open>The query-parameter request of the test's second configuration.\<close>

definition custom_query_request :: Ctx where
  "custom_query_request = with_query ''custom_token'' ''nanachi-cute'' empty_request"

section \<open>Properties\<close>

subsection \<open>Splitting at the first space\<close>

lemma IndexByte_takeWhile:
  "IndexByte s c = (if c \<in> set s then Some (length (takeWhile (\<lambda>x. x \<noteq> c) s)) else None)"
  by (induction s) auto

lemma SplitN_two:
  "SplitN h (CHR '' '') 2 =
     (if CHR '' '' \<in> set h then [scheme_component h, credential_component h] else [h])"
proof -
  have two: "nat 2 - 1 = Suc 0" by simp
  have tk: "take (length (takeWhile (\<lambda>x. x \<noteq> CHR '' '') h)) h = takeWhile (\<lambda>x. x \<noteq> CHR '' '') h"
    by (simp add: takeWhile_eq_take [symmetric])
  have dr: "drop (length (takeWhile (\<lambda>x. x \<noteq> CHR '' '') h)) h = dropWhile (\<lambda>x. x \<noteq> CHR '' '') h"
    by (simp add: dropWhile_eq_drop [symmetric])
  have dr1: "drop (length (takeWhile (\<lambda>x. x \<noteq> CHR '' '') h) + 1) h
               = drop 1 (dropWhile (\<lambda>x. x \<noteq> CHR '' '') h)"
    using dr by (metis add.commute drop_drop)
  show ?thesis
    unfolding SplitN_def two
    by (simp add: IndexByte_takeWhile scheme_component_def credential_component_def tk dr1
             del: One_nat_def)
qed

text \<open>
  The split read backwards: the scheme matches with credential \<open>v\<close> exactly when the
  header is \<open>HeaderKey\<close>, one space, \<open>v\<close>, and \<open>HeaderKey\<close> has no space in it.
\<close>

lemma scheme_matches_iff:
  "scheme_matches config h \<and> credential_component h = v \<longleftrightarrow>
     CHR '' '' \<notin> set (HeaderKey config) \<and> h = HeaderKey config @ CHR '' '' # v"
proof
  assume a: "scheme_matches config h \<and> credential_component h = v"
  then have sp: "CHR '' '' \<in> set h" and k: "takeWhile (\<lambda>c. c \<noteq> CHR '' '') h = HeaderKey config"
    by (simp_all add: scheme_matches_def scheme_component_def)
  from sp have "dropWhile (\<lambda>c. c \<noteq> CHR '' '') h \<noteq> []" by simp
  moreover have "hd (dropWhile (\<lambda>c. c \<noteq> CHR '' '') h) = CHR '' ''"
    using sp hd_dropWhile [of "\<lambda>c. c \<noteq> CHR '' ''" h] by auto
  ultimately have "dropWhile (\<lambda>c. c \<noteq> CHR '' '') h = CHR '' '' # v"
    using a by (cases "dropWhile (\<lambda>c. c \<noteq> CHR '' '') h")
               (auto simp: credential_component_def)
  then have "h = HeaderKey config @ CHR '' '' # v"
    using k takeWhile_dropWhile_id [of "\<lambda>c. c \<noteq> CHR '' ''" h] by simp
  moreover have "CHR '' '' \<notin> set (HeaderKey config)"
    using k set_takeWhileD [of "CHR '' ''" "\<lambda>c. c \<noteq> CHR '' ''" h] by auto
  ultimately show "CHR '' '' \<notin> set (HeaderKey config) \<and> h = HeaderKey config @ CHR '' '' # v"
    by simp
next
  assume b: "CHR '' '' \<notin> set (HeaderKey config) \<and> h = HeaderKey config @ CHR '' '' # v"
  then have ns: "\<forall>c\<in>set (HeaderKey config). c \<noteq> CHR '' ''" by auto
  have "takeWhile (\<lambda>c. c \<noteq> CHR '' '') h = HeaderKey config"
    using b ns by (simp add: takeWhile_tail)
  moreover have "dropWhile (\<lambda>c. c \<noteq> CHR '' '') h = CHR '' '' # v"
    using b ns by (simp add: dropWhile_append3)
  ultimately show "scheme_matches config h \<and> credential_component h = v"
    using b by (simp add: scheme_matches_def scheme_component_def credential_component_def)
qed

subsection \<open>The handler in the words of the specification\<close>

lemma block_value_supplied: "block_value config ctx src = supplied config ctx src"
  by (cases src) (auto simp: SplitN_two scheme_matches_def Let_def)

lemma Extract_in_order: "Extract config ctx = check_in_order config ctx sources"
  by (simp add: Extract_def check_in_order_def sources_def check_def Let_def)

lemma Extract_supplied:
  "Extract config ctx =
     (let q = Query ctx (QueryKey config);
          b = Body ctx (BodyKey config);
          h = Get ctx ''authorization'';
          m = scheme_matches config h
      in (if m then credential_component h else if b \<noteq> '''' then b else q,
          (q \<noteq> '''' \<and> b \<noteq> '''') \<or> (m \<and> (q \<noteq> '''' \<or> b \<noteq> ''''))))"
  by (auto simp: Extract_def SplitN_two scheme_matches_def Let_def)

lemma handler_conflict:
  "snd (Extract config ctx) \<Longrightarrow> handler config next ctx = ctx\<lparr>status := 400, response := ''''\<rparr>"
  by (cases "Extract config ctx") (simp add: handler_def Send_def Status_def)

lemma handler_success:
  "\<not> snd (Extract config ctx) \<Longrightarrow>
     handler config next ctx =
       next (ctx\<lparr>locals := (locals ctx)(RequestKey config \<mapsto> fst (Extract config ctx))\<rparr>)"
  by (cases "Extract config ctx") (simp add: handler_def Locals_def)

lemma all_source: "(\<forall>s. P s) \<longleftrightarrow> P FromQuery \<and> P FromBody \<and> P FromHeader"
  by (metis source.exhaust)

text \<open>The definitions a concrete request is evaluated with.\<close>

lemmas request_defs =
  empty_request_def with_query_def with_body_def with_authorization_def
  header_request_def query_request_def body_request_def query_and_header_request_def
  query_and_basic_request_def query_and_bare_scheme_request_def
  body_and_bare_scheme_request_def custom_query_request_def

lemmas spec_defs =
  scheme_matches_def scheme_component_def credential_component_def
  supplies_nonempty_def nonempty_sources_def contributing_sources_def sources_def

lemmas code_defs =
  Extract_def SplitN_def handler_def New_def resolve_def Send_def Status_def Locals_def
  echo_def check_in_order_def check_def Let_def

lemmas config_defs = default_config_def custom_config_def empty_config_def

text \<open>The split on a few strings, as Go computes it.\<close>

lemma SplitN_examples:
  "SplitN ''Bearer abc def'' (CHR '' '') 2 = [''Bearer'', ''abc def'']"
  "SplitN ''Bearer'' (CHR '' '') 2 = [''Bearer'']"
  "SplitN ''Bearer '' (CHR '' '') 2 = [''Bearer'', '''']"
  "SplitN '' abc'' (CHR '' '') 2 = ['''', ''abc'']"
  "SplitN '''' (CHR '' '') 2 = ['''']"
  "SplitN ''a b c'' (CHR '' '') 0 = []"
  "SplitN ''a b c'' (CHR '' '') 1 = [''a b c'']"
  "SplitN ''a b c'' (CHR '' '') (- 1) = [''a'', ''b'', ''c'']"
  by (simp_all add: SplitN_def)

subsection \<open>Configuration resolution\<close>

text \<open>
  C7. With no options the configuration is the four defaults. With options, each field of
  the result is the default when the caller's field is empty and the caller's field
  otherwise, whatever the other three fields are. No field of a resolved configuration
  is the empty string.
\<close>

theorem resolve_fields:
  "resolve None = default_config
   \<and> BodyKey (resolve (Some opts)) =
       (if BodyKey opts = '''' then ''access_token'' else BodyKey opts)
   \<and> HeaderKey (resolve (Some opts)) =
       (if HeaderKey opts = '''' then ''Bearer'' else HeaderKey opts)
   \<and> QueryKey (resolve (Some opts)) =
       (if QueryKey opts = '''' then ''access_token'' else QueryKey opts)
   \<and> RequestKey (resolve (Some opts)) =
       (if RequestKey opts = '''' then ''token'' else RequestKey opts)
   \<and> BodyKey (resolve given) \<noteq> '''' \<and> HeaderKey (resolve given) \<noteq> ''''
   \<and> QueryKey (resolve given) \<noteq> '''' \<and> RequestKey (resolve given) \<noteq> ''''"
  by (cases given) (simp_all add: resolve_def default_config_def Let_def)

theorem resolve_fields_witness:
  "resolve None = default_config
   \<and> resolve (Some empty_config) = default_config
   \<and> resolve (Some custom_config) = custom_config
   \<and> resolve (Some (empty_config\<lparr>HeaderKey := ''Auth''\<rparr>))
       = default_config\<lparr>HeaderKey := ''Auth''\<rparr>"
  using resolve_fields [of empty_config "Some empty_config"]
        resolve_fields [of custom_config "Some custom_config"]
        resolve_fields [of "empty_config\<lparr>HeaderKey := ''Auth''\<rparr>" None]
  by (simp add: config_defs)

subsection \<open>Conflict\<close>

text \<open>
  C1. When two or more of the three sources supply a non-empty value, equal or not, the
  flag \<open>errored\<close> is set and the handler returns the context with status 400 and an
  empty response body. The result does not depend on \<open>next\<close>: the next handler
  is not run.
\<close>

theorem conflict_on_two_sources:
  "2 \<le> length (nonempty_sources config ctx) \<Longrightarrow>
     snd (Extract config ctx)
     \<and> handler config next ctx = ctx\<lparr>status := 400, response := ''''\<rparr>"
proof -
  assume two: "2 \<le> length (nonempty_sources config ctx)"
  then have "snd (Extract config ctx)"
    by (auto simp: Extract_supplied nonempty_sources_def supplies_nonempty_def sources_def
                   Let_def split: if_splits)
  then show ?thesis by (simp add: handler_conflict)
qed

text \<open>The fifth test case: the same string in the query and in the header.\<close>

theorem conflict_on_two_sources_witness:
  "2 \<le> length (nonempty_sources default_config query_and_header_request)
   \<and> supplied default_config query_and_header_request FromQuery = Some ''nanachi-cute''
   \<and> supplied default_config query_and_header_request FromHeader = Some ''nanachi-cute''
   \<and> status (handler default_config (echo ''token'') query_and_header_request) = 400
   \<and> response (handler default_config (echo ''token'') query_and_header_request) = ''''"
  using conflict_on_two_sources [of default_config query_and_header_request "echo ''token''"]
  by (simp add: request_defs spec_defs code_defs config_defs)

text \<open>
  C3, as the claim states it, fails. With the default keys, a request with the query
  parameter \<open>access_token=nanachi-cute\<close> and the header \<open>Authorization: Bearer \<close>
  (the scheme, one space, no credential) has one source with a non-empty value, and the
  handler answers 400.
\<close>

theorem single_nonempty_source_conflict:
  "length (nonempty_sources default_config query_and_bare_scheme_request) \<le> 1
   \<and> snd (Extract default_config query_and_bare_scheme_request)
   \<and> status (handler default_config (echo ''token'') query_and_bare_scheme_request) = 400"
  by (simp add: request_defs spec_defs code_defs config_defs)

text \<open>
  C3, amended. The header counts as a source whenever its scheme matches, also when
  its credential is empty. The conflict flag is set exactly when two or more sources
  count in this sense; with at most one such source the handler does not answer 400: it
  stores the token and runs the next handler.
\<close>

theorem conflict_iff_two_contributing:
  "(snd (Extract config ctx) \<longleftrightarrow> 2 \<le> length (contributing_sources config ctx))
   \<and> (length (contributing_sources config ctx) \<le> 1 \<longrightarrow>
        handler config next ctx =
          next (ctx\<lparr>locals := (locals ctx)(RequestKey config \<mapsto> fst (Extract config ctx))\<rparr>))"
proof -
  have iff: "snd (Extract config ctx) \<longleftrightarrow> 2 \<le> length (contributing_sources config ctx)"
    by (auto simp: Extract_supplied contributing_sources_def sources_def Let_def)
  then show ?thesis using handler_success [of config ctx "next"] by auto
qed

theorem conflict_iff_two_contributing_witness:
  "length (contributing_sources default_config query_and_basic_request) \<le> 1
   \<and> \<not> snd (Extract default_config query_and_basic_request)
   \<and> response (handler default_config (echo ''token'') query_and_basic_request)
       = ''nanachi-cute''
   \<and> status (handler default_config (echo ''token'') query_and_basic_request) = 200
   \<and> length (contributing_sources default_config query_and_bare_scheme_request) = 2
   \<and> snd (Extract default_config query_and_bare_scheme_request)"
  using conflict_iff_two_contributing [of default_config query_and_basic_request "echo ''token''"]
        conflict_iff_two_contributing
          [of default_config query_and_bare_scheme_request "echo ''token''"]
  by (simp add: request_defs spec_defs code_defs config_defs)

text \<open>
  C10. On conflict nothing is stored: the locals of the context the handler returns are
  those it received, and so are the three request lookups. Only the status and the
  response body change, and \<open>next\<close> is not run.
\<close>

theorem conflict_publishes_nothing:
  "snd (Extract config ctx) \<Longrightarrow>
     locals (handler config next ctx) = locals ctx
     \<and> Query (handler config next ctx) = Query ctx
     \<and> Body (handler config next ctx) = Body ctx
     \<and> Get (handler config next ctx) = Get ctx"
  by (simp add: handler_conflict)

theorem conflict_publishes_nothing_witness:
  "snd (Extract default_config query_and_header_request)
   \<and> locals (handler default_config (echo ''token'') query_and_header_request) ''token'' = None
   \<and> locals (handler default_config (echo ''token'') query_and_header_request)
       = locals query_and_header_request"
  using conflict_publishes_nothing [of default_config query_and_header_request "echo ''token''"]
  by (simp add: request_defs code_defs config_defs)

subsection \<open>Success\<close>

text \<open>
  C2. When one source supplies a non-empty value \<open>v\<close> and the other two supply nothing
  (for the header: no value with a matching scheme), the token is \<open>v\<close>, there is no
  conflict, and the next handler runs on the context with \<open>v\<close> stored under the request
  key. For the header, \<open>supplied\<close> is the credential after the first space of a value
  whose part before that space is \<open>HeaderKey\<close> (lemma \<open>scheme_matches_iff\<close>).
\<close>

theorem single_source_token:
  "supplied config ctx src = Some v \<Longrightarrow> v \<noteq> '''' \<Longrightarrow>
   (\<forall>other. other \<noteq> src \<longrightarrow> supplied config ctx other = None) \<Longrightarrow>
     Extract config ctx = (v, False)
     \<and> handler config next ctx = next (ctx\<lparr>locals := (locals ctx)(RequestKey config \<mapsto> v)\<rparr>)"
proof -
  assume s: "supplied config ctx src = Some v" and v: "v \<noteq> ''''"
    and o: "\<forall>other. other \<noteq> src \<longrightarrow> supplied config ctx other = None"
  have e: "Extract config ctx = (v, False)"
    using s v o by (cases src) (auto simp: Extract_supplied all_source Let_def split: if_splits)
  then show ?thesis using handler_success [of config ctx "next"] by simp
qed

text \<open>The second, third and fourth test case.\<close>

theorem single_source_token_witness:
  "supplied default_config header_request FromHeader = Some ''nanachi-cute''
   \<and> supplied default_config header_request FromQuery = None
   \<and> supplied default_config header_request FromBody = None
   \<and> Extract default_config header_request = (''nanachi-cute'', False)
   \<and> response (handler default_config (echo ''token'') header_request) = ''nanachi-cute''
   \<and> response (handler default_config (echo ''token'') query_request) = ''nanachi-cute''
   \<and> response (handler default_config (echo ''token'') body_request) = ''nanachi-cute''"
  using single_source_token
          [of default_config header_request FromHeader "''nanachi-cute''" "echo ''token''"]
        single_source_token
          [of default_config query_request FromQuery "''nanachi-cute''" "echo ''token''"]
        single_source_token
          [of default_config body_request FromBody "''nanachi-cute''" "echo ''token''"]
  by (simp add: request_defs spec_defs code_defs config_defs all_source)

text \<open>
  C5. When the query parameter and the body field are empty and the header has no
  matching scheme, there is no conflict, the token is the empty string, and the next
  handler runs on the context with the empty string stored under the request key.
\<close>

theorem no_source_empty_token:
  "Query ctx (QueryKey config) = '''' \<Longrightarrow> Body ctx (BodyKey config) = '''' \<Longrightarrow>
   \<not> scheme_matches config (Get ctx ''authorization'') \<Longrightarrow>
     Extract config ctx = ('''', False)
     \<and> handler config next ctx = next (ctx\<lparr>locals := (locals ctx)(RequestKey config \<mapsto> '''')\<rparr>)"
proof -
  assume "Query ctx (QueryKey config) = ''''" "Body ctx (BodyKey config) = ''''"
    "\<not> scheme_matches config (Get ctx ''authorization'')"
  then have e: "Extract config ctx = ('''', False)"
    by (simp add: Extract_supplied)
  then show ?thesis using handler_success [of config ctx "next"] by simp
qed

text \<open>The first test case.\<close>

theorem no_source_empty_token_witness:
  "Query empty_request (QueryKey default_config) = ''''
   \<and> Body empty_request (BodyKey default_config) = ''''
   \<and> \<not> scheme_matches default_config (Get empty_request ''authorization'')
   \<and> Extract default_config empty_request = ('''', False)
   \<and> status (handler default_config (echo ''token'') empty_request) = 200
   \<and> response (handler default_config (echo ''token'') empty_request) = ''''
   \<and> locals (handler default_config (echo ''token'') empty_request) ''token'' = Some ''''"
  using no_source_empty_token [of empty_request default_config "echo ''token''"]
  by (simp add: request_defs spec_defs code_defs config_defs)

text \<open>
  C8. When there is no conflict, the handler \<open>New\<close> returns runs the next handler on
  the context whose locals hold the final token, empty or not, under the resolved
  \<open>RequestKey\<close>; every other name of the locals keeps what it had, so with a custom
  request key nothing is stored under \<open>token\<close>.
\<close>

theorem token_published:
  "\<not> snd (Extract (resolve opts) ctx) \<Longrightarrow>
     New opts next ctx =
       next (ctx\<lparr>locals := (locals ctx)(RequestKey (resolve opts) \<mapsto>
                                          fst (Extract (resolve opts) ctx))\<rparr>)
     \<and> (\<forall>key. key \<noteq> RequestKey (resolve opts) \<longrightarrow>
          locals (ctx\<lparr>locals := (locals ctx)(RequestKey (resolve opts) \<mapsto>
                                             fst (Extract (resolve opts) ctx))\<rparr>) key
            = locals ctx key)"
  by (simp add: New_def handler_success)

theorem token_published_witness:
  "\<not> snd (Extract (resolve (Some custom_config)) custom_query_request)
   \<and> RequestKey (resolve (Some custom_config)) = ''bearer''
   \<and> response (New (Some custom_config) (echo ''bearer'') custom_query_request)
       = ''nanachi-cute''
   \<and> response (New (Some custom_config) (echo ''token'') custom_query_request) = ''''
   \<and> locals (New (Some custom_config) (echo ''token'') custom_query_request) ''token'' = None
   \<and> \<not> snd (Extract (resolve None) empty_request)
   \<and> locals (New None (echo ''token'') empty_request) ''token'' = Some ''''"
  using token_published [of "Some custom_config" custom_query_request "echo ''bearer''"]
        token_published [of "Some custom_config" custom_query_request "echo ''token''"]
        token_published [of None empty_request "echo ''token''"]
  by (simp add: request_defs code_defs config_defs)

subsection \<open>The Authorization header\<close>

text \<open>
  C4. A header value with no space in it, or whose part before the first space is not
  \<open>HeaderKey\<close>, does not pass the guard of the header block, and the token and the
  conflict flag are what they are for the same request without the header.
\<close>

theorem unmatched_header_ignored:
  "CHR '' '' \<notin> set h \<or> scheme_component h \<noteq> HeaderKey config \<Longrightarrow>
     block_value config (ctx\<lparr>Get := (Get ctx)(''authorization'' := h)\<rparr>) FromHeader = None
     \<and> Extract config (ctx\<lparr>Get := (Get ctx)(''authorization'' := h)\<rparr>)
         = Extract config (ctx\<lparr>Get := (Get ctx)(''authorization'' := '''')\<rparr>)"
  by (auto simp: Extract_supplied block_value_supplied scheme_matches_def Let_def)

theorem unmatched_header_ignored_witness:
  "scheme_component ''Basic xyz'' \<noteq> HeaderKey default_config
   \<and> credential_component ''Basic xyz'' = ''xyz''
   \<and> CHR '' '' \<notin> set ''Bearer''
   \<and> Extract default_config
        (query_request\<lparr>Get := (Get query_request)(''authorization'' := ''Basic xyz'')\<rparr>)
       = (''nanachi-cute'', False)
   \<and> Extract default_config
        (query_request\<lparr>Get := (Get query_request)(''authorization'' := ''Bearer'')\<rparr>)
       = (''nanachi-cute'', False)
   \<and> Extract default_config
        (query_request\<lparr>Get := (Get query_request)(''authorization'' := '''')\<rparr>)
       = (''nanachi-cute'', False)"
  using unmatched_header_ignored [of "''Basic xyz''" default_config query_request]
        unmatched_header_ignored [of "''Bearer''" default_config query_request]
  by (simp add: request_defs spec_defs code_defs config_defs)

text \<open>
  C9. When \<open>HeaderKey\<close> has no space in it (so that it can be the part before a first
  space) and the header value is \<open>HeaderKey\<close> followed by one space, the header block
  passes its guard with the empty credential: the token ends as the empty string, and if
  the query parameter or the body field is non-empty the flag is set and the handler
  answers 400 with an empty body, though one source only has a non-empty value.
\<close>

theorem bare_scheme_contributes:
  "CHR '' '' \<notin> set (HeaderKey config) \<Longrightarrow>
   Get ctx ''authorization'' = HeaderKey config @ '' '' \<Longrightarrow>
     block_value config ctx FromHeader = Some ''''
     \<and> fst (Extract config ctx) = ''''
     \<and> (Query ctx (QueryKey config) \<noteq> '''' \<or> Body ctx (BodyKey config) \<noteq> '''' \<longrightarrow>
          snd (Extract config ctx)
          \<and> handler config next ctx = ctx\<lparr>status := 400, response := ''''\<rparr>)"
proof -
  assume k: "CHR '' '' \<notin> set (HeaderKey config)"
    and h: "Get ctx ''authorization'' = HeaderKey config @ '' ''"
  from k h have m: "scheme_matches config (Get ctx ''authorization'')
      \<and> credential_component (Get ctx ''authorization'') = ''''"
    using scheme_matches_iff [of config "Get ctx ''authorization''" "''''"] by simp
  then have b: "block_value config ctx FromHeader = Some ''''"
    by (simp add: block_value_supplied)
  have t: "fst (Extract config ctx) = ''''"
    using m by (simp add: Extract_supplied Let_def)
  have c: "Query ctx (QueryKey config) \<noteq> '''' \<or> Body ctx (BodyKey config) \<noteq> '''' \<longrightarrow>
      snd (Extract config ctx)"
    using m by (auto simp: Extract_supplied Let_def)
  show ?thesis using b t c handler_conflict [of config ctx "next"] by blast
qed

theorem bare_scheme_contributes_witness:
  "CHR '' '' \<notin> set (HeaderKey default_config)
   \<and> Get query_and_bare_scheme_request ''authorization'' = HeaderKey default_config @ '' ''
   \<and> Query query_and_bare_scheme_request (QueryKey default_config) = ''nanachi-cute''
   \<and> nonempty_sources default_config query_and_bare_scheme_request = [FromQuery]
   \<and> fst (Extract default_config query_and_bare_scheme_request) = ''''
   \<and> status (handler default_config (echo ''token'') query_and_bare_scheme_request) = 400
   \<and> response (handler default_config (echo ''token'') query_and_bare_scheme_request) = ''''"
  using bare_scheme_contributes [of default_config query_and_bare_scheme_request "echo ''token''"]
  by (simp add: request_defs spec_defs code_defs config_defs)

subsection \<open>The order of the checks\<close>

text \<open>
  When every block that passes its guard assigns a non-empty value, the token is
  non-empty from the first such block on, and the flag is set exactly when two blocks
  pass their guards.
\<close>

lemma foldl_check:
  assumes ne: "\<forall>src v. block_value config ctx src = Some v \<longrightarrow> v \<noteq> ''''"
  shows "(fst (foldl (check config ctx) (t, e) order) \<noteq> '''' \<longleftrightarrow>
            t \<noteq> '''' \<or> filter (\<lambda>s. block_value config ctx s \<noteq> None) order \<noteq> [])
         \<and> (snd (foldl (check config ctx) (t, e) order) \<longleftrightarrow>
            e \<or> 2 \<le> (if t \<noteq> '''' then 1 else 0)
                      + length (filter (\<lambda>s. block_value config ctx s \<noteq> None) order))"
proof (induction order arbitrary: t e)
  case Nil
  show ?case by simp
next
  case (Cons s order)
  show ?case
  proof (cases "block_value config ctx s")
    case None
    then show ?thesis using Cons.IH [of t e] by (simp add: check_def)
  next
    case (Some v)
    then have v: "v \<noteq> ''''" using ne by blast
    have step: "check config ctx (t, e) s = (v, e \<or> t \<noteq> '''')"
      using Some by (simp add: check_def)
    show ?thesis using Cons.IH [of v "e \<or> t \<noteq> ''''"] Some v step by auto
  qed
qed

lemma conflict_counts:
  assumes "\<forall>src v. block_value config ctx src = Some v \<longrightarrow> v \<noteq> ''''"
  shows "snd (check_in_order config ctx order) \<longleftrightarrow>
           2 \<le> length (filter (\<lambda>s. block_value config ctx s \<noteq> None) order)"
  using foldl_check [OF assms, of "''''" False order] by (simp add: check_in_order_def)

lemma block_values_nonempty:
  "supplied config ctx FromHeader \<noteq> Some '''' \<Longrightarrow>
     \<forall>src v. block_value config ctx src = Some v \<longrightarrow> v \<noteq> ''''"
proof (intro allI impI)
  fix src v
  assume h: "supplied config ctx FromHeader \<noteq> Some ''''"
    and b: "block_value config ctx src = Some v"
  show "v \<noteq> ''''"
    using h b by (cases src) (auto simp: block_value_supplied split: if_splits)
qed

text \<open>
  C6, as the claim states it, fails. With the default keys, a request with the body field
  \<open>access_token=nanachi-cute\<close> and the header \<open>Authorization: Bearer \<close> is a
  conflict in the order of the source, and is none when the header is checked first:
  the header block then leaves the token empty, and the body block finds it empty.
\<close>

theorem conflict_order_dependent:
  "snd (Extract default_config body_and_bare_scheme_request)
   \<and> snd (check_in_order default_config body_and_bare_scheme_request
            [FromQuery, FromBody, FromHeader])
   \<and> \<not> snd (check_in_order default_config body_and_bare_scheme_request
              [FromHeader, FromQuery, FromBody])"
  by (simp add: request_defs code_defs config_defs)

text \<open>
  C6, amended. For a request whose header does not have a matching scheme with an empty
  credential, the three checks in any order give the conflict flag of the handler.
\<close>

theorem conflict_order_independent:
  "supplied config ctx FromHeader \<noteq> Some '''' \<Longrightarrow>
   distinct order \<Longrightarrow> set order = set sources \<Longrightarrow>
     snd (check_in_order config ctx order) = snd (Extract config ctx)"
proof -
  assume h: "supplied config ctx FromHeader \<noteq> Some ''''"
    and d: "distinct order" and s: "set order = set sources"
  let ?P = "\<lambda>s. block_value config ctx s \<noteq> None"
  have ne: "\<forall>src v. block_value config ctx src = Some v \<longrightarrow> v \<noteq> ''''"
    using h by (rule block_values_nonempty)
  have ds: "distinct sources" by (simp add: sources_def)
  have "length (filter ?P order) = card ({x. ?P x} \<inter> set order)"
    using d by (rule distinct_length_filter)
  also have "\<dots> = card ({x. ?P x} \<inter> set sources)" using s by simp
  also have "\<dots> = length (filter ?P sources)"
    using ds by (simp add: distinct_length_filter)
  finally have "length (filter ?P order) = length (filter ?P sources)" .
  then have "snd (check_in_order config ctx order) = snd (check_in_order config ctx sources)"
    by (simp add: conflict_counts [OF ne])
  then show ?thesis by (simp add: Extract_in_order)
qed

theorem conflict_order_independent_witness:
  "supplied default_config query_and_header_request FromHeader = Some ''nanachi-cute''
   \<and> distinct [FromHeader, FromQuery, FromBody]
   \<and> set [FromHeader, FromQuery, FromBody] = set sources
   \<and> snd (check_in_order default_config query_and_header_request
            [FromHeader, FromQuery, FromBody])
   \<and> snd (Extract default_config query_and_header_request)
   \<and> \<not> snd (check_in_order default_config query_request [FromBody, FromHeader, FromQuery])
   \<and> \<not> snd (Extract default_config query_request)"
  using conflict_order_independent
          [of default_config query_and_header_request "[FromHeader, FromQuery, FromBody]"]
        conflict_order_independent
          [of default_config query_request "[FromBody, FromHeader, FromQuery]"]
  by (auto simp add: request_defs spec_defs code_defs config_defs)

end
